theory Spec2Isabelle
  imports Complex_Main
begin

section \<open>Data model (types.ts and the state held by App)\<close>

text \<open>
  JavaScript numbers are modelled as the reals: the development is about the
  formulas of the program, not about the rounding of binary floating point.
\<close>

datatype AppState = CLOSED | SCATTERED | ZOOMED

text \<open>A hand landmark as the program reads it: only \<open>x\<close> and \<open>y\<close> are used.\<close>

record Landmark =
  lm_x :: real
  lm_y :: real

record HandGesture =
  isFist :: bool
  isOpen :: bool
  isGrabbing :: bool
  rotation :: "real \<times> real \<times> real"
  position :: "real \<times> real"
  rawLandmarks :: "Landmark list option"

record PhotoData =
  photo_id :: string
  photo_url :: string

text \<open>
  The \<open>useState\<close> cells of the component \<open>App\<close>. A setter of the source is
  an update of the corresponding field.
\<close>

record App =
  appState :: AppState
  photos :: "PhotoData list"
  gesture :: "HandGesture option"
  selectedPhotoId :: "string option"
  isCameraActive :: bool

definition initialApp :: App where
  "initialApp =
     \<lparr>appState = CLOSED, photos = [], gesture = None, selectedPhotoId = None,
      isCameraActive = False\<rparr>"

section \<open>The scene state machine (App.tsx, Experience)\<close>

text \<open>
  \<open>onGesture\<close> of App.tsx. The callback closes over the value of
  \<open>appState\<close> of the render that created it (first argument); the setters act on
  the state cells (last argument).
\<close>

definition onGesture :: "AppState \<Rightarrow> HandGesture \<Rightarrow> App \<Rightarrow> App" where
  "onGesture closedOver newGesture st =
     (let st1 = st\<lparr>gesture := Some newGesture\<rparr> in
      if isFist newGesture \<and> closedOver \<noteq> CLOSED
      then st1\<lparr>appState := CLOSED, selectedPhotoId := None\<rparr>
      else if isOpen newGesture \<and> closedOver = CLOSED
      then st1\<lparr>appState := SCATTERED\<rparr>
      else st1)"

text \<open>
  JavaScript truthiness of a \<open>string | null\<close>: \<open>null\<close> and the empty string are
  falsy.
\<close>

fun truthy :: "string option \<Rightarrow> bool" where
  "truthy None = False"
| "truthy (Some s) = (s \<noteq> [])"

text \<open>\<open>gesture?.isGrabbing\<close> as a condition: false when no gesture is latched.\<close>

fun gestureIsGrabbing :: "HandGesture option \<Rightarrow> bool" where
  "gestureIsGrabbing None = False"
| "gestureIsGrabbing (Some g) = isGrabbing g"

text \<open>
  The photo selection effect of Experience. Its body reads nothing but its
  dependencies (\<open>gesture?.isGrabbing\<close>, \<open>photos\<close>, \<open>appState\<close>,
  \<open>selectedPhotoId\<close>), so running it after every update of the state is running it
  whenever a dependency has changed.
\<close>

definition photoSelectionEffect :: "App \<Rightarrow> App" where
  "photoSelectionEffect st =
     (if gestureIsGrabbing (gesture st) \<and> appState st = SCATTERED
         \<and> \<not> truthy (selectedPhotoId st)
      then (if length (photos st) > 0
            then st\<lparr>selectedPhotoId := Some (photo_id (photos st ! 0)),
                    appState := ZOOMED\<rparr>
            else st)
      else st)"

text \<open>
  What a descriptor does to the state when the callback that receives it closed
  over \<open>closedOver\<close>: the three updates of the callback applied as one batch,
  then the effect on the state of the next render.
\<close>

definition gestureStepWith :: "AppState \<Rightarrow> HandGesture \<Rightarrow> App \<Rightarrow> App" where
  "gestureStepWith closedOver g st = photoSelectionEffect (onGesture closedOver g st)"

text \<open>
  One step of the program on a gesture descriptor. The only caller of
  \<open>onGesture\<close> is the handler that HandTrackerUI gives \<open>hands.onResults\<close>, and
  HandTrackerUI registers that handler once, in an effect without dependencies:
  the handler keeps the \<open>onGesture\<close> prop of the first render, the callback
  that closed over the initial \<open>appState\<close>. The callbacks that \<open>useCallback\<close>
  creates on later renders are never called.
\<close>

definition gestureStep :: "HandGesture \<Rightarrow> App \<Rightarrow> App" where
  "gestureStep g st = gestureStepWith (appState initialApp) g st"

text \<open>The close button of the photo overlay: \<open>onClick={() => setSelectedPhotoId(null)}\<close>.\<close>

definition modalClose :: "App \<Rightarrow> App" where
  "modalClose st = st\<lparr>selectedPhotoId := None\<rparr>"

text \<open>The overlay, and with it the close button, is rendered only for a truthy selection.\<close>

definition modalVisible :: "App \<Rightarrow> bool" where
  "modalVisible st = truthy (selectedPhotoId st)"

text \<open>
  \<open>handleFileUpload\<close>: the new photos (their ids and URLs come from the
  browser) are appended.
\<close>

definition handleFileUpload :: "PhotoData list \<Rightarrow> App \<Rightarrow> App" where
  "handleFileUpload newPhotos st = st\<lparr>photos := photos st @ newPhotos\<rparr>"

text \<open>
  The events that change the state cells of App, each followed by the effect: a
  descriptor delivered to a callback that closed over some mode, a click on the
  close button (which exists only while the overlay is shown), an upload.
\<close>

datatype AppEvent = Gesture AppState HandGesture | CloseModal | Upload "PhotoData list"

fun appEvent :: "AppEvent \<Rightarrow> App \<Rightarrow> App" where
  "appEvent (Gesture closedOver g) st = gestureStepWith closedOver g st"
| "appEvent CloseModal st =
     (if modalVisible st then photoSelectionEffect (modalClose st) else st)"
| "appEvent (Upload newPhotos) st = photoSelectionEffect (handleFileUpload newPhotos st)"

definition appRun :: "AppEvent list \<Rightarrow> App \<Rightarrow> App" where
  "appRun es st = foldl (\<lambda>c e. appEvent e c) st es"

section \<open>The gesture classifier (HandTrackerUI)\<close>

text \<open>
  \<open>lm[i]\<close> of the source: \<open>undefined\<close> outside the array. Reading a coordinate
  of \<open>undefined\<close> throws a TypeError; a computation that throws is \<open>None\<close>.
\<close>

definition landmarkAt :: "Landmark list \<Rightarrow> nat \<Rightarrow> Landmark option" where
  "landmarkAt lm i = (if i < length lm then Some (lm ! i) else None)"

text \<open>\<open>dist\<close> of the source (the name \<open>dist\<close> is the metric of HOL).\<close>

definition dist2d :: "Landmark option \<Rightarrow> Landmark option \<Rightarrow> real option" where
  "dist2d p1 p2 =
     (case p1 of
        None \<Rightarrow> None
      | Some a \<Rightarrow>
          (case p2 of
             None \<Rightarrow> None
           | Some b \<Rightarrow> Some (sqrt ((lm_x a - lm_x b) ^ 2 + (lm_y a - lm_y b) ^ 2))))"

definition tips :: "nat list" where
  "tips = [8, 12, 16, 20]"

definition bases :: "nat list" where
  "bases = [5, 9, 13, 17]"

text \<open>
  \<open>tips.reduce((acc, tip, i) => acc + dist(lm[tip], lm[bases[i]]), 0) / 4\<close>, which
  \<open>analyzeFist\<close> and \<open>analyzeOpenHand\<close> both compute.
\<close>

definition avgDist :: "Landmark list \<Rightarrow> real option" where
  "avgDist lm =
     map_option (\<lambda>s. s / 4)
       (foldl (\<lambda>acc (tip, i).
                 case acc of
                   None \<Rightarrow> None
                 | Some a \<Rightarrow>
                     map_option (\<lambda>d. a + d)
                       (dist2d (landmarkAt lm tip) (landmarkAt lm (bases ! i))))
              (Some 0) (zip tips [0..<length tips]))"

definition analyzeFist :: "Landmark list \<Rightarrow> bool option" where
  "analyzeFist lm = map_option (\<lambda>a. a < 0.12) (avgDist lm)"

definition analyzeOpenHand :: "Landmark list \<Rightarrow> bool option" where
  "analyzeOpenHand lm = map_option (\<lambda>a. a > 0.25) (avgDist lm)"

definition analyzeGrabbing :: "Landmark list \<Rightarrow> bool option" where
  "analyzeGrabbing lm =
     map_option (\<lambda>d. d < 0.05) (dist2d (landmarkAt lm 4) (landmarkAt lm 8))"

text \<open>The descriptor that \<open>hands.onResults\<close> builds from the landmarks of one hand.\<close>

definition gestureOf :: "Landmark list \<Rightarrow> HandGesture option" where
  "gestureOf landmarks =
     (case analyzeFist landmarks of
        None \<Rightarrow> None
      | Some f \<Rightarrow>
     (case analyzeOpenHand landmarks of
        None \<Rightarrow> None
      | Some opn \<Rightarrow>
     (case analyzeGrabbing landmarks of
        None \<Rightarrow> None
      | Some grab \<Rightarrow>
     (case landmarkAt landmarks 0 of
        None \<Rightarrow> None
      | Some palmBase \<Rightarrow>
     (case landmarkAt landmarks 9 of
        None \<Rightarrow> None
      | Some middleBase \<Rightarrow>
          (let posX = (lm_x palmBase + lm_x middleBase) / 2;
               posY = (lm_y palmBase + lm_y middleBase) / 2
           in Some \<lparr>isFist = f, isOpen = opn, isGrabbing = grab,
                     rotation = (0, 0, 0), position = (posX, posY),
                     rawLandmarks = Some landmarks\<rparr>))))))"

text \<open>
  The callback given to \<open>hands.onResults\<close>. Its argument is
  \<open>results.multiHandLandmarks\<close> (possibly \<open>undefined\<close>); the component receives
  \<open>onGesture\<close> as a prop, here the first argument. Drawing on the feedback
  canvas does not touch the state and is left out.
\<close>

definition onResults ::
  "(HandGesture \<Rightarrow> App \<Rightarrow> App) \<Rightarrow> Landmark list list option \<Rightarrow> App \<Rightarrow> App option" where
  "onResults onGestureProp multiHandLandmarks st =
     (case multiHandLandmarks of
        None \<Rightarrow> Some st
      | Some hs \<Rightarrow>
          if length hs > 0
          then map_option (\<lambda>g. onGestureProp g st) (gestureOf (hs ! 0))
          else Some st)"

text \<open>A run of camera frames, stopping at the first exception.\<close>

fun onResultsAll ::
  "(HandGesture \<Rightarrow> App \<Rightarrow> App) \<Rightarrow> Landmark list list option list \<Rightarrow> App \<Rightarrow> App option" where
  "onResultsAll cb [] st = Some st"
| "onResultsAll cb (r # rs) st =
     (case onResults cb r st of None \<Rightarrow> None | Some st' \<Rightarrow> onResultsAll cb rs st')"

subsection \<open>The classifier as the specification words it\<close>

definition euclidean :: "Landmark \<Rightarrow> Landmark \<Rightarrow> real" where
  "euclidean p q = sqrt ((lm_x p - lm_x q)\<^sup>2 + (lm_y p - lm_y q)\<^sup>2)"

text \<open>The four non-thumb fingers, each as (fingertip, base knuckle).\<close>

definition fingers :: "(nat \<times> nat) list" where
  "fingers = [(8, 5), (12, 9), (16, 13), (20, 17)]"

definition fingerSpan :: "Landmark list \<Rightarrow> real" where
  "fingerSpan lm =
     (\<Sum>(tip, base) \<leftarrow> fingers. euclidean (lm ! tip) (lm ! base)) / real (length fingers)"

definition midpoint2d :: "Landmark \<Rightarrow> Landmark \<Rightarrow> real \<times> real" where
  "midpoint2d p q = ((lm_x p + lm_x q) / 2, (lm_y p + lm_y q) / 2)"

section \<open>Vectors, random numbers and memoised values\<close>

datatype Vector3 = Vector3 (v3x: real) (v3y: real) (v3z: real)

text \<open>
  \<open>Vector3.lerp(v, alpha)\<close> of three.js, which the program calls for every
  blend: \<open>this.x += (v.x - this.x) * alpha\<close>, and the same for \<open>y\<close> and \<open>z\<close>.
  The library applies \<open>alpha\<close> as it is given.
\<close>

definition lerp :: "Vector3 \<Rightarrow> Vector3 \<Rightarrow> real \<Rightarrow> Vector3" where
  "lerp this v alpha =
     Vector3 (v3x this + (v3x v - v3x this) * alpha)
             (v3y this + (v3y v - v3y this) * alpha)
             (v3z this + (v3z v - v3z this) * alpha)"

text \<open>
  \<open>Math.random()\<close>: the generator is the sequence of the numbers it will
  return; a call takes the first and leaves the rest.
\<close>

type_synonym rng = "nat \<Rightarrow> real"

definition random :: "rng \<Rightarrow> real \<times> rng" where
  "random s = (s 0, \<lambda>n. s (Suc n))"

text \<open>
  \<open>new THREE.Vector3((Math.random() - 0.5) * w, (Math.random() - 0.5) * w,
  (Math.random() - 0.5) * w)\<close>, the arguments evaluated left to right.
\<close>

definition randomVector :: "real \<Rightarrow> rng \<Rightarrow> Vector3 \<times> rng" where
  "randomVector w s =
     (let (a, s1) = random s;
          (b, s2) = random s1;
          (c, s3) = random s2
      in (Vector3 ((a - 0.5) * w) ((b - 0.5) * w) ((c - 0.5) * w), s3))"

text \<open>
  \<open>useMemo(factory, deps)\<close> of React on one hook cell: the factory runs on the
  first render and whenever the dependencies differ from the stored ones;
  otherwise the stored value is returned and the factory does not run.
\<close>

definition useMemo ::
  "('s \<Rightarrow> 'v \<times> 's) \<Rightarrow> 'd \<Rightarrow> ('d \<times> 'v) option \<Rightarrow> 's \<Rightarrow> ('d \<times> 'v) option \<times> 's" where
  "useMemo factory deps cell s =
     (case cell of
        None \<Rightarrow> (let (v, s') = factory s in (Some (deps, v), s'))
      | Some (d, v0) \<Rightarrow>
          if d = deps then (cell, s)
          else (let (v, s') = factory s in (Some (deps, v), s')))"

section \<open>Layout generators and the animation of a photo (PhotoItem)\<close>

record PhotoItemProps =
  url :: string
  isScattered :: bool
  index :: nat
  total :: nat
  isZoomed :: bool

definition treePos :: "nat \<Rightarrow> nat \<Rightarrow> Vector3" where
  "treePos idx tot =
     (let h = (real idx / real tot) * 8 - 4;
          r = ((5 - h) / 10) * 4;
          angle = (real idx / real tot) * pi * 4
      in Vector3 (cos angle * r) h (sin angle * r))"

definition scatterPos :: "rng \<Rightarrow> Vector3 \<times> rng" where
  "scatterPos s = randomVector 20 s"

record Mesh =
  mesh_position :: Vector3
  mesh_scale :: Vector3
  mesh_rotation :: Vector3

text \<open>
  The state of one mounted PhotoItem: the props of its last render, its two
  \<open>useMemo\<close> cells and the mesh behind \<open>meshRef\<close>.
\<close>

record PhotoItem =
  props :: PhotoItemProps
  treePos_memo :: "((nat \<times> nat) \<times> Vector3) option"
  scatterPos_memo :: "(unit \<times> Vector3) option"
  meshRef :: "Mesh option"

definition newMesh :: Mesh where
  "newMesh =
     \<lparr>mesh_position = Vector3 0 0 0, mesh_scale = Vector3 1 1 1,
      mesh_rotation = Vector3 0 0 0\<rparr>"

text \<open>
  A render of PhotoItem: the two memoised targets, with dependencies
  \<open>[index, total]\<close> and \<open>[]\<close>; the mesh is attached when the component mounts.
\<close>

definition PhotoItem_render :: "PhotoItemProps \<Rightarrow> PhotoItem \<Rightarrow> rng \<Rightarrow> PhotoItem \<times> rng" where
  "PhotoItem_render p it s =
     (let (tp, s1) = useMemo (\<lambda>s. (treePos (index p) (total p), s)) (index p, total p)
                       (treePos_memo it) s;
          (sp, s2) = useMemo scatterPos () (scatterPos_memo it) s1
      in (\<lparr>props = p, treePos_memo = tp, scatterPos_memo = sp,
           meshRef = (case meshRef it of None \<Rightarrow> Some newMesh | Some m \<Rightarrow> Some m)\<rparr>, s2))"

definition PhotoItem_mount :: "PhotoItemProps \<Rightarrow> rng \<Rightarrow> PhotoItem \<times> rng" where
  "PhotoItem_mount p s =
     PhotoItem_render p
       \<lparr>props = p, treePos_memo = None, scatterPos_memo = None, meshRef = None\<rparr> s"

text \<open>
  The \<open>useFrame\<close> callback of PhotoItem on the mesh. \<open>facing\<close> is the
  orientation that \<open>Object3D.lookAt\<close> of three.js gives the mesh; \<open>camera\<close> is
  \<open>state.camera.position\<close>.
\<close>

definition PhotoItem_useFrame ::
  "(Mesh \<Rightarrow> Vector3 \<Rightarrow> Vector3) \<Rightarrow> PhotoItemProps \<Rightarrow> Vector3 \<Rightarrow> Vector3 \<Rightarrow> Vector3 \<Rightarrow> real
     \<Rightarrow> Mesh \<Rightarrow> Mesh" where
  "PhotoItem_useFrame facing p treeP scatterP camera delta m =
     (if isZoomed p
      then m\<lparr>mesh_scale := lerp (mesh_scale m) (Vector3 0 0 0) (delta * 5)\<rparr>
      else
        (let target = (if isScattered p then scatterP else treeP);
             m1 = m\<lparr>mesh_position := lerp (mesh_position m) target (delta * 3)\<rparr>
         in if isScattered p
            then (let m2 = m1\<lparr>mesh_rotation := facing m1 camera\<rparr>
                  in m2\<lparr>mesh_scale := lerp (mesh_scale m2) (Vector3 2.5 2.5 1) (delta * 2)\<rparr>)
            else (let m2 = m1\<lparr>mesh_rotation :=
                                   Vector3 (v3x (mesh_rotation m1))
                                           (v3y (mesh_rotation m1) + delta * 0.5)
                                           (v3z (mesh_rotation m1))\<rparr>
                  in m2\<lparr>mesh_scale := lerp (mesh_scale m2) (Vector3 1.2 1.2 1) (delta * 2)\<rparr>)))"

text \<open>A frame of a mounted PhotoItem: nothing happens while \<open>meshRef.current\<close> is null.\<close>

definition PhotoItem_frame ::
  "(Mesh \<Rightarrow> Vector3 \<Rightarrow> Vector3) \<Rightarrow> Vector3 \<Rightarrow> real \<Rightarrow> PhotoItem \<Rightarrow> PhotoItem" where
  "PhotoItem_frame facing camera delta it =
     (case (meshRef it, treePos_memo it, scatterPos_memo it) of
        (Some m, Some (_, treeP), Some (_, scatterP)) \<Rightarrow>
          it\<lparr>meshRef := Some (PhotoItem_useFrame facing (props it) treeP scatterP camera delta m)\<rparr>
      | _ \<Rightarrow> it)"

text \<open>
  What happens to a PhotoItem between its mount and its unmount: renders with
  new props (with the generator as it stands at that moment) and frames.
\<close>

datatype PhotoItemEvent = Rerender PhotoItemProps rng | Frame Vector3 real

fun PhotoItem_event :: "(Mesh \<Rightarrow> Vector3 \<Rightarrow> Vector3) \<Rightarrow> PhotoItemEvent \<Rightarrow> PhotoItem \<Rightarrow> PhotoItem" where
  "PhotoItem_event facing (Rerender p s) it = fst (PhotoItem_render p it s)"
| "PhotoItem_event facing (Frame camera delta) it = PhotoItem_frame facing camera delta it"

definition PhotoItem_run ::
  "(Mesh \<Rightarrow> Vector3 \<Rightarrow> Vector3) \<Rightarrow> PhotoItemEvent list \<Rightarrow> PhotoItem \<Rightarrow> PhotoItem" where
  "PhotoItem_run facing es it = foldl (\<lambda>c e. PhotoItem_event facing e c) it es"

text \<open>The props that Experience gives the PhotoItem of the photo at \<open>idx\<close>.\<close>

definition photoItemProps :: "App \<Rightarrow> nat \<Rightarrow> PhotoItemProps" where
  "photoItemProps st idx =
     \<lparr>url = photo_url (photos st ! idx),
      isScattered = (appState st \<noteq> CLOSED),
      index = idx,
      total = length (photos st),
      isZoomed = (selectedPhotoId st = Some (photo_id (photos st ! idx)))\<rparr>"

section \<open>The decorative particles (Experience)\<close>

definition count :: nat where
  "count = 350"

definition baseRadius :: real where
  "baseRadius = 4"

definition height :: real where
  "height = 10"

definition treePosition :: "nat \<Rightarrow> Vector3" where
  "treePosition i =
     (let h = (real i / real count) * height;
          radius = ((height - h) / height) * baseRadius;
          angle = real i * 0.4
      in Vector3 (cos angle * radius) (h - height / 2) (sin angle * radius))"

text \<open>The loop \<open>for (let i = 0; i < count; i++) pos.push(...)\<close>.\<close>

definition treePositions :: "Vector3 list" where
  "treePositions = map treePosition [0..<count]"

text \<open>\<open>Array.from({ length: n }).map(() => new THREE.Vector3(...))\<close>.\<close>

fun randomVectors :: "real \<Rightarrow> nat \<Rightarrow> rng \<Rightarrow> Vector3 list \<times> rng" where
  "randomVectors w 0 s = ([], s)"
| "randomVectors w (Suc n) s =
     (let (v, s1) = randomVector w s;
          (vs, s2) = randomVectors w n s1
      in (v # vs, s2))"

definition scatterPositions :: "rng \<Rightarrow> Vector3 list \<times> rng" where
  "scatterPositions s = randomVectors 30 count s"

text \<open>
  The memoised targets of Experience (dependencies \<open>[count, height, baseRadius]\<close>
  and \<open>[count]\<close>) and the positions held in the instance matrices.
\<close>

record Experience =
  treePositions_memo :: "((nat \<times> real \<times> real) \<times> Vector3 list) option"
  scatterPositions_memo :: "(nat \<times> Vector3 list) option"
  particles :: "Vector3 list"

definition Experience_render :: "Experience \<Rightarrow> rng \<Rightarrow> Experience \<times> rng" where
  "Experience_render ex s =
     (let (tp, s1) = useMemo (\<lambda>s. (treePositions, s)) (count, height, baseRadius)
                       (treePositions_memo ex) s;
          (sp, s2) = useMemo scatterPositions count (scatterPositions_memo ex) s1
      in (ex\<lparr>treePositions_memo := tp, scatterPositions_memo := sp\<rparr>, s2))"

definition currentTargets :: "AppState \<Rightarrow> Vector3 list \<Rightarrow> Vector3 list \<Rightarrow> Vector3 list" where
  "currentTargets mode treeP scatterP = (if mode = CLOSED then treeP else scatterP)"

text \<open>
  Part 1 of the \<open>useFrame\<close> callback of Experience, for the particle \<open>i\<close>:
  the position read from the instance matrix, blended, and written back.
\<close>

definition particleStep :: "AppState \<Rightarrow> real \<Rightarrow> real \<Rightarrow> nat \<Rightarrow> Vector3 \<Rightarrow> Vector3 \<Rightarrow> Vector3" where
  "particleStep mode elapsedTime delta i target p =
     (let p1 = lerp p target (delta * 2.5)
      in if mode = SCATTERED
         then Vector3 (v3x p1) (v3y p1 + sin (elapsedTime + real i) * 0.005) (v3z p1)
         else p1)"

definition particlesFrame ::
  "AppState \<Rightarrow> Vector3 list \<Rightarrow> real \<Rightarrow> real \<Rightarrow> Vector3 list \<Rightarrow> Vector3 list" where
  "particlesFrame mode targets elapsedTime delta ps =
     map (\<lambda>i. particleStep mode elapsedTime delta i (targets ! i) (ps ! i)) [0..<count]"

text \<open>
  The rest of the floating branch, \<open>dummy.rotation.x += delta * 0.2\<close>, on the
  angle read from the instance matrix.
\<close>

definition particleRotationStep :: "AppState \<Rightarrow> real \<Rightarrow> real \<Rightarrow> real" where
  "particleRotationStep mode delta rx = (if mode = SCATTERED then rx + delta * 0.2 else rx)"

text \<open>
  Part 3 of the callback: the rotation about the vertical axis of the group that
  holds the particles and the photos.
\<close>

definition groupRotationStep :: "AppState \<Rightarrow> real \<Rightarrow> real \<Rightarrow> real" where
  "groupRotationStep mode delta ry =
     (if mode = CLOSED then ry + delta * 0.5
      else if mode = SCATTERED then ry + delta * 0.1
      else ry)"

text \<open>
  The mount of Experience: the first render, then the effect that copies
  \<open>treePositions\<close> into the instance matrices.
\<close>

definition Experience_mount :: "rng \<Rightarrow> Experience" where
  "Experience_mount s =
     (let ex = fst (Experience_render
                 \<lparr>treePositions_memo = None, scatterPositions_memo = None, particles = []\<rparr> s)
      in case treePositions_memo ex of
           None \<Rightarrow> ex
         | Some (_, treeP) \<Rightarrow> ex\<lparr>particles := treeP\<rparr>)"

definition Experience_frame :: "AppState \<Rightarrow> real \<Rightarrow> real \<Rightarrow> Experience \<Rightarrow> Experience" where
  "Experience_frame mode elapsedTime delta ex =
     (case (treePositions_memo ex, scatterPositions_memo ex) of
        (Some (_, treeP), Some (_, scatterP)) \<Rightarrow>
          ex\<lparr>particles :=
               particlesFrame mode (currentTargets mode treeP scatterP) elapsedTime delta
                 (particles ex)\<rparr>
      | _ \<Rightarrow> ex)"

datatype ExperienceEvent = ERerender rng | EFrame AppState real real

fun Experience_event :: "ExperienceEvent \<Rightarrow> Experience \<Rightarrow> Experience" where
  "Experience_event (ERerender s) ex = fst (Experience_render ex s)"
| "Experience_event (EFrame mode elapsedTime delta) ex = Experience_frame mode elapsedTime delta ex"

definition Experience_run :: "ExperienceEvent list \<Rightarrow> Experience \<Rightarrow> Experience" where
  "Experience_run es ex = foldl (\<lambda>c e. Experience_event e c) ex es"

section \<open>Reference definitions\<close>

subsection \<open>The conical spiral as the specification words it\<close>

definition conicalSpiral :: "real \<Rightarrow> real \<Rightarrow> real \<Rightarrow> nat \<Rightarrow> nat \<Rightarrow> Vector3" where
  "conicalSpiral H R k i N =
     (let h = (real i / real N) * H - H / 2;
          r = ((H / 2 - h) / H) * R;
          angle = real i * k
      in Vector3 (cos angle * r) h (sin angle * r))"

subsection \<open>The blend as the specification words it\<close>

text \<open>\<open>position += (target - position) * factor\<close>, on one axis and on a vector.\<close>

definition easeToward :: "real \<Rightarrow> real \<Rightarrow> real \<Rightarrow> real" where
  "easeToward p target factor = p + (target - p) * factor"

definition easeVector :: "Vector3 \<Rightarrow> Vector3 \<Rightarrow> real \<Rightarrow> Vector3" where
  "easeVector p target factor =
     Vector3 (easeToward (v3x p) (v3x target) factor)
             (easeToward (v3y p) (v3y target) factor)
             (easeToward (v3z p) (v3z target) factor)"

subsection \<open>Distances to a target, and the cube of the scattered targets\<close>

definition noAxisFarther :: "Vector3 \<Rightarrow> Vector3 \<Rightarrow> Vector3 \<Rightarrow> bool" where
  "noAxisFarther target before after =
     (\<bar>v3x target - v3x after\<bar> \<le> \<bar>v3x target - v3x before\<bar>
      \<and> \<bar>v3y target - v3y after\<bar> \<le> \<bar>v3y target - v3y before\<bar>
      \<and> \<bar>v3z target - v3z after\<bar> \<le> \<bar>v3z target - v3z before\<bar>)"

definition inCube :: "real \<Rightarrow> Vector3 \<Rightarrow> bool" where
  "inCube halfWidth v =
     (- halfWidth \<le> v3x v \<and> v3x v < halfWidth
      \<and> - halfWidth \<le> v3y v \<and> v3y v < halfWidth
      \<and> - halfWidth \<le> v3z v \<and> v3z v < halfWidth)"

subsection \<open>Consistency of mode, selection and photo list\<close>

text \<open>An assembled tree has no selection, and a zoomed scene has a photo.\<close>

definition consistent :: "App \<Rightarrow> bool" where
  "consistent st =
     ((if appState st = CLOSED then selectedPhotoId st = None else True)
      \<and> (if appState st = ZOOMED then photos st \<noteq> [] else True))"

section \<open>Concrete inputs\<close>

definition descriptor :: "bool \<Rightarrow> bool \<Rightarrow> bool \<Rightarrow> HandGesture" where
  "descriptor f opn grab =
     \<lparr>isFist = f, isOpen = opn, isGrabbing = grab, rotation = (0, 0, 0),
      position = (1 / 2, 1 / 2), rawLandmarks = None\<rparr>"

definition photoA :: PhotoData where
  "photoA = \<lparr>photo_id = ''k3x9a'', photo_url = ''blob:a''\<rparr>"

definition photoB :: PhotoData where
  "photoB = \<lparr>photo_id = ''q7m2b'', photo_url = ''blob:b''\<rparr>"

definition scatteredApp :: "PhotoData list \<Rightarrow> App" where
  "scatteredApp ps =
     \<lparr>appState = SCATTERED, photos = ps, gesture = None, selectedPhotoId = None,
      isCameraActive = True\<rparr>"

definition zoomedApp :: App where
  "zoomedApp =
     \<lparr>appState = ZOOMED, photos = [photoA, photoB], gesture = Some (descriptor False False True),
      selectedPhotoId = Some ''k3x9a'', isCameraActive = True\<rparr>"

definition flatHand :: "Landmark list" where
  "flatHand = replicate 21 \<lparr>lm_x = 1 / 2, lm_y = 1 / 2\<rparr>"

text \<open>
  Hands seen edge-on, every landmark at \<open>x = 1/2\<close>, given by the \<open>y\<close> of the
  21 landmarks. A fist: every fingertip 0.05 from its knuckle, the thumb tip away
  from the index tip. A ring of thumb and index with the other fingers
  stretched: finger span 0.28, thumb tip 0.02 from the index tip.
\<close>

definition handOfYs :: "real list \<Rightarrow> Landmark list" where
  "handOfYs ys = map (\<lambda>v. \<lparr>lm_x = 1 / 2, lm_y = v\<rparr>) ys"

definition fistHand :: "Landmark list" where
  "fistHand =
     handOfYs
       [80 / 100, 70 / 100, 60 / 100, 50 / 100, 30 / 100,
        50 / 100, 50 / 100, 50 / 100, 55 / 100,
        50 / 100, 50 / 100, 50 / 100, 55 / 100,
        50 / 100, 50 / 100, 50 / 100, 55 / 100,
        50 / 100, 50 / 100, 50 / 100, 55 / 100]"

definition ringHand :: "Landmark list" where
  "ringHand =
     handOfYs
       [90 / 100, 80 / 100, 70 / 100, 65 / 100, 60 / 100,
        60 / 100, 55 / 100, 56 / 100, 58 / 100,
        60 / 100, 45 / 100, 30 / 100, 20 / 100,
        60 / 100, 45 / 100, 30 / 100, 20 / 100,
        60 / 100, 50 / 100, 40 / 100, 30 / 100]"

definition treeProps :: PhotoItemProps where
  "treeProps = \<lparr>url = ''blob:a'', isScattered = False, index = 0, total = 1, isZoomed = False\<rparr>"

definition cameraHome :: Vector3 where
  "cameraHome = Vector3 0 5 15"

definition towardCamera :: "Mesh \<Rightarrow> Vector3 \<Rightarrow> Vector3" where
  "towardCamera m c = c"

definition quarters :: rng where
  "quarters = (\<lambda>n. real (n mod 4) / 4)"

definition halves :: rng where
  "halves = (\<lambda>n. 1 / 2)"

section \<open>Properties of the gesture classifier\<close>

lemma avgDist_fingerSpan: "20 < length lm \<Longrightarrow> avgDist lm = Some (fingerSpan lm)"
  by (simp add: avgDist_def fingerSpan_def tips_def bases_def fingers_def landmarkAt_def
      dist2d_def euclidean_def upt_rec)

text \<open>The two thresholds on the finger span exclude each other.\<close>

lemma classifier_never_fist_and_open:
  "gestureOf lm = Some g \<Longrightarrow> \<not> (isFist g \<and> isOpen g)"
  by (auto simp: gestureOf_def analyzeFist_def analyzeOpenHand_def split: option.splits)

text \<open>
  C2. On every set of 21 landmarks the classifier returns a descriptor, and the
  descriptor is the one of the reference definition: \<open>isFist\<close> iff the finger
  span (the mean distance between the tips 8, 12, 16, 20 and the base knuckles
  5, 9, 13, 17) is below 0.12, \<open>isOpen\<close> iff it is above 0.25, \<open>isGrabbing\<close>
  iff thumb tip (4) and index tip (8) are closer than 0.05, and the position is
  the midpoint of the wrist (0) and the base of the middle finger (9).
\<close>

theorem classifier_matches_reference:
  assumes "length lm = 21"
  shows "\<exists>g. gestureOf lm = Some g
           \<and> isFist g = (fingerSpan lm < 0.12)
           \<and> isOpen g = (fingerSpan lm > 0.25)
           \<and> isGrabbing g = (euclidean (lm ! 4) (lm ! 8) < 0.05)
           \<and> position g = midpoint2d (lm ! 0) (lm ! 9)"
  using assms
  by (simp add: gestureOf_def analyzeFist_def analyzeOpenHand_def analyzeGrabbing_def
      avgDist_fingerSpan landmarkAt_def dist2d_def euclidean_def midpoint2d_def)

theorem classifier_matches_reference_witness:
  "length flatHand = 21
   \<and> (\<exists>g. gestureOf flatHand = Some g
          \<and> isFist g \<and> \<not> isOpen g \<and> isGrabbing g \<and> position g = (1 / 2, 1 / 2))"
  using classifier_matches_reference [of flatHand]
  by (simp add: flatHand_def fingerSpan_def fingers_def euclidean_def midpoint2d_def)

text \<open>
  The descriptors of two hands, evaluated: points on one vertical line are as far
  apart as their \<open>y\<close> differ.
\<close>

lemma dist2d_same_x:
  "dist2d (Some \<lparr>lm_x = u, lm_y = a\<rparr>) (Some \<lparr>lm_x = u, lm_y = b\<rparr>) = Some \<bar>a - b\<bar>"
  by (simp add: dist2d_def)

lemma gestureOf_fistHand:
  "gestureOf fistHand =
     Some \<lparr>isFist = True, isOpen = False, isGrabbing = False, rotation = (0, 0, 0),
           position = (1 / 2, 13 / 20), rawLandmarks = Some fistHand\<rparr>"
  by (simp add: gestureOf_def analyzeFist_def analyzeOpenHand_def analyzeGrabbing_def
      avgDist_def tips_def bases_def landmarkAt_def upt_rec fistHand_def handOfYs_def
      dist2d_same_x)

lemma gestureOf_ringHand:
  "gestureOf ringHand =
     Some \<lparr>isFist = False, isOpen = True, isGrabbing = True, rotation = (0, 0, 0),
           position = (1 / 2, 3 / 4), rawLandmarks = Some ringHand\<rparr>"
  by (simp add: gestureOf_def analyzeFist_def analyzeOpenHand_def analyzeGrabbing_def
      avgDist_def tips_def bases_def landmarkAt_def upt_rec ringHand_def handOfYs_def
      dist2d_same_x)

section \<open>Properties of the state machine\<close>

lemma gestureStep_first_render: "gestureStep g st = gestureStepWith CLOSED g st"
  by (simp add: gestureStep_def initialApp_def)

lemmas step_defs =
  gestureStep_first_render gestureStepWith_def onGesture_def photoSelectionEffect_def Let_def

lemma photoSelectionEffect_idem:
  "photoSelectionEffect (photoSelectionEffect st) = photoSelectionEffect st"
  by (simp add: photoSelectionEffect_def)

text \<open>
  Running the effect once after a batch of updates is enough: a second run
  finds the mode ZOOMED, or the same guard false again.
\<close>

lemma gestureStep_settled: "photoSelectionEffect (gestureStep g st) = gestureStep g st"
  by (simp add: gestureStep_first_render gestureStepWith_def photoSelectionEffect_idem)

text \<open>
  The callback the program calls closed over CLOSED: its fist branch is dead,
  and its open branch sets the mode SCATTERED from every mode, leaving the
  selection alone.
\<close>

lemma first_render_callback:
  "appState (onGesture CLOSED g st) = (if isOpen g then SCATTERED else appState st)
   \<and> selectedPhotoId (onGesture CLOSED g st) = selectedPhotoId st"
  by (simp add: onGesture_def Let_def)

text \<open>
  The callbacks that App creates for the renders in the modes SCATTERED and
  ZOOMED, had they been called, assemble the tree on a fist and clear the
  selection; and under the callback of the current render a repeated descriptor
  of the classifier changes the state once at most.
\<close>

lemma current_render_callback_fist:
  "isFist g \<Longrightarrow> c \<noteq> CLOSED \<Longrightarrow>
   appState (gestureStepWith c g st) = CLOSED \<and> selectedPhotoId (gestureStepWith c g st) = None"
  by (simp add: gestureStepWith_def onGesture_def photoSelectionEffect_def Let_def)

lemma current_render_callback_stable:
  "\<not> (isFist g \<and> isOpen g) \<Longrightarrow>
   gestureStepWith (appState (gestureStepWith (appState st) g st)) g
       (gestureStepWith (appState st) g st)
     = gestureStepWith (appState st) g st"
  by (cases "appState st")
     (auto simp: gestureStepWith_def onGesture_def photoSelectionEffect_def Let_def)

text \<open>
  Every state reached from the initial state is consistent, whichever callbacks
  the descriptors were delivered to.
\<close>

lemma consistent_initialApp: "consistent initialApp"
  by (simp add: consistent_def initialApp_def)

lemma consistent_appEvent: "consistent st \<Longrightarrow> consistent (appEvent e st)"
  by (cases e)
     (auto simp: consistent_def step_defs modalClose_def modalVisible_def
        handleFileUpload_def split: if_splits)

lemma consistent_appRun: "consistent st \<Longrightarrow> consistent (appRun es st)"
  unfolding appRun_def
  by (induction es arbitrary: st) (simp_all add: consistent_appEvent)

lemma assembled_has_no_selection:
  "appState (appRun es initialApp) = CLOSED \<Longrightarrow> selectedPhotoId (appRun es initialApp) = None"
  using consistent_appRun [OF consistent_initialApp, of es]
  by (simp add: consistent_def split: if_splits)

text \<open>
  C1. A descriptor with \<open>isFist\<close> set should take the scene to Assembled from
  every mode and clear the selected item. The program does not do it: the
  camera frame of a fist, received while the scene is Scattered, leaves it
  Scattered, and received while it is Zoomed leaves it Zoomed with the photo
  still selected. The fist branch of \<open>onGesture\<close> is there, but in a callback
  that is never called (\<open>current_render_callback_fist\<close>).
\<close>

theorem fist_leaves_scene_unassembled:
  "map_option isFist (gestureOf fistHand) = Some True
   \<and> map_option appState (onResults gestureStep (Some [fistHand]) (scatteredApp [photoA, photoB]))
       = Some SCATTERED
   \<and> map_option appState (onResults gestureStep (Some [fistHand]) zoomedApp) = Some ZOOMED
   \<and> map_option selectedPhotoId (onResults gestureStep (Some [fistHand]) zoomedApp)
       = Some (Some ''k3x9a'')
   \<and> appState (gestureStep (descriptor True False False) zoomedApp) = ZOOMED
   \<and> selectedPhotoId (gestureStep (descriptor True False False) zoomedApp) = Some ''k3x9a''"
  by (simp add: onResults_def gestureOf_fistHand step_defs scatteredApp_def zoomedApp_def
      descriptor_def)

text \<open>
  C3. Feeding the same descriptor repeatedly should change the state once at
  most. The program changes it twice: with one photo in the gallery, the camera
  frame of a hand that is open and pinching takes the initial scene to Zoomed
  with the photo selected, and the same frame again takes it to Scattered with
  the photo still selected; only then is the state stable. The callback of the
  current render would have been stable after the first step
  (\<open>current_render_callback_stable\<close>).
\<close>

theorem repeated_descriptor_changes_twice:
  "map_option (\<lambda>g. (isFist g, isOpen g, isGrabbing g)) (gestureOf ringHand)
     = Some (False, True, True)
   \<and> map_option appState
        (onResultsAll gestureStep [Some [ringHand]] (initialApp\<lparr>photos := [photoA]\<rparr>))
       = Some ZOOMED
   \<and> map_option appState
        (onResultsAll gestureStep [Some [ringHand], Some [ringHand]]
           (initialApp\<lparr>photos := [photoA]\<rparr>))
       = Some SCATTERED
   \<and> map_option selectedPhotoId
        (onResultsAll gestureStep [Some [ringHand], Some [ringHand]]
           (initialApp\<lparr>photos := [photoA]\<rparr>))
       = Some (Some ''k3x9a'')
   \<and> onResultsAll gestureStep [Some [ringHand], Some [ringHand], Some [ringHand]]
        (initialApp\<lparr>photos := [photoA]\<rparr>)
       = onResultsAll gestureStep [Some [ringHand], Some [ringHand]]
           (initialApp\<lparr>photos := [photoA]\<rparr>)"
  by (simp add: onResults_def gestureOf_ringHand step_defs initialApp_def photoA_def)

text \<open>
  C4, as the code has it. While the mode is Scattered and no item is selected,
  a descriptor with \<open>isGrabbing\<close> set, received when at least one photo
  exists, sets the mode to Zoomed and selects the first photo. From then on a
  frame eases the scale of every photo carrying the selected id toward zero and
  leaves its position alone, and every other photo keeps the scattered
  behaviour: position toward its scattered target, facing the camera, scale
  toward (2.5, 2.5, 1). The particles keep easing toward their scattered targets,
  but without the floating term and without the turn of their own, and the
  group stops rotating.
\<close>

theorem grab_selects_first_photo:
  assumes "isGrabbing g" and "appState st = SCATTERED"
    and "selectedPhotoId st = None" and "photos st \<noteq> []"
  shows "appState (gestureStep g st) = ZOOMED
         \<and> selectedPhotoId (gestureStep g st) = Some (photo_id (photos st ! 0))
         \<and> photos (gestureStep g st) = photos st
         \<and> (\<forall>i<length (photos st).
              PhotoItem_useFrame facing (photoItemProps (gestureStep g st) i)
                treeP scatterP camera delta m =
              (if photo_id (photos st ! i) = photo_id (photos st ! 0)
               then m\<lparr>mesh_scale := lerp (mesh_scale m) (Vector3 0 0 0) (delta * 5)\<rparr>
               else m\<lparr>mesh_position := lerp (mesh_position m) scatterP (delta * 3),
                      mesh_rotation :=
                        facing (m\<lparr>mesh_position := lerp (mesh_position m) scatterP (delta * 3)\<rparr>)
                          camera,
                      mesh_scale := lerp (mesh_scale m) (Vector3 2.5 2.5 1) (delta * 2)\<rparr>))
         \<and> particleStep (appState (gestureStep g st)) elapsedTime delta k
              (currentTargets (appState (gestureStep g st)) treePs scatterPs ! k) q
             = lerp q (scatterPs ! k) (delta * 2.5)
         \<and> particleRotationStep (appState (gestureStep g st)) delta rx = rx
         \<and> groupRotationStep (appState (gestureStep g st)) delta ry = ry"
proof -
  have "gestureStep g st =
          st\<lparr>gesture := Some g, selectedPhotoId := Some (photo_id (photos st ! 0)),
             appState := ZOOMED\<rparr>"
    using assms by (simp add: step_defs)
  then show ?thesis
    by (simp add: photoItemProps_def PhotoItem_useFrame_def particleStep_def
        currentTargets_def particleRotationStep_def groupRotationStep_def Let_def)
qed

theorem grab_selects_first_photo_witness:
  "isGrabbing (descriptor True False True)
   \<and> appState (scatteredApp [photoA, photoB]) = SCATTERED
   \<and> selectedPhotoId (scatteredApp [photoA, photoB]) = None
   \<and> photos (scatteredApp [photoA, photoB]) \<noteq> []
   \<and> appState (gestureStep (descriptor True False True) (scatteredApp [photoA, photoB])) = ZOOMED
   \<and> selectedPhotoId (gestureStep (descriptor True False True) (scatteredApp [photoA, photoB]))
       = Some ''k3x9a''
   \<and> PhotoItem_useFrame towardCamera
        (photoItemProps (gestureStep (descriptor True False True) (scatteredApp [photoA, photoB])) 0)
        (treePos 0 2) (Vector3 6 (-2) 8) cameraHome (1 / 10) newMesh
       = newMesh\<lparr>mesh_scale := Vector3 (1 / 2) (1 / 2) (1 / 2)\<rparr>
   \<and> PhotoItem_useFrame towardCamera
        (photoItemProps (gestureStep (descriptor True False True) (scatteredApp [photoA, photoB])) 1)
        (treePos 1 2) (Vector3 6 (-2) 8) cameraHome (1 / 10) newMesh
       = \<lparr>mesh_position = Vector3 (18 / 10) (- 6 / 10) (24 / 10),
          mesh_scale = Vector3 (13 / 10) (13 / 10) 1,
          mesh_rotation = cameraHome\<rparr>
   \<and> particleStep
        (appState (gestureStep (descriptor True False True) (scatteredApp [photoA, photoB])))
        (pi / 2) (1 / 10) 0
        (currentTargets
           (appState (gestureStep (descriptor True False True) (scatteredApp [photoA, photoB])))
           [Vector3 4 (- 5) 0] [Vector3 8 (- 4) 12] ! 0)
        (Vector3 0 0 0)
       = Vector3 2 (- 1) 3"
  using grab_selects_first_photo
    [where g = "descriptor True False True" and st = "scatteredApp [photoA, photoB]"
       and facing = towardCamera and treeP = "treePos 0 2" and scatterP = "Vector3 6 (-2) 8"
       and camera = cameraHome and delta = "1 / 10" and m = newMesh
       and elapsedTime = "pi / 2" and k = 0 and treePs = "[Vector3 4 (- 5) 0]"
       and scatterPs = "[Vector3 8 (- 4) 12]" and q = "Vector3 0 0 0"]
    grab_selects_first_photo
    [where g = "descriptor True False True" and st = "scatteredApp [photoA, photoB]"
       and facing = towardCamera and treeP = "treePos 1 2" and scatterP = "Vector3 6 (-2) 8"
       and camera = cameraHome and delta = "1 / 10" and m = newMesh]
  by (simp add: descriptor_def scatteredApp_def photoA_def photoB_def lerp_def newMesh_def
      towardCamera_def)

text \<open>
  C4 as it is stated fails twice. With no photo the guard on \<open>photos.length\<close>
  keeps the mode Scattered and the selection null. With a photo, the particles
  do not keep the scattered behaviour: the floating term that a frame adds in
  the mode Scattered is gone in the mode Zoomed.
\<close>

theorem grab_does_not_always_zoom:
  "isGrabbing (descriptor False False True)
   \<and> appState (gestureStep (descriptor False False True) (scatteredApp [])) = SCATTERED
   \<and> selectedPhotoId (gestureStep (descriptor False False True) (scatteredApp [])) = None
   \<and> particleStep (appState (scatteredApp [photoA])) (pi / 2) (1 / 10) 0
        (Vector3 4 0 0) (Vector3 0 0 0)
       = Vector3 1 (1 / 200) 0
   \<and> particleStep (appState (gestureStep (descriptor False False True) (scatteredApp [photoA])))
        (pi / 2) (1 / 10) 0 (Vector3 4 0 0) (Vector3 0 0 0)
       = Vector3 1 0 0"
  by (simp add: step_defs descriptor_def scatteredApp_def particleStep_def lerp_def)

text \<open>
  C7. The close button of the zoomed viewer clears the selected item and
  nothing else: at a Zoomed state with a selected photo the mode is still Zoomed
  after the click, not Scattered, and a pinch that follows is ignored, since the
  selection effect asks for the mode Scattered.
\<close>

theorem modal_close_keeps_zoomed:
  "modalVisible zoomedApp
   \<and> appState zoomedApp = ZOOMED
   \<and> selectedPhotoId (appEvent CloseModal zoomedApp) = None
   \<and> appState (appEvent CloseModal zoomedApp) = ZOOMED
   \<and> appState (appRun [CloseModal, Gesture ZOOMED (descriptor False False True)] zoomedApp) = ZOOMED
   \<and> selectedPhotoId (appRun [CloseModal, Gesture ZOOMED (descriptor False False True)] zoomedApp) = None"
  by (simp add: appRun_def step_defs modalVisible_def modalClose_def zoomedApp_def
      descriptor_def)

text \<open>
  C8. A camera frame without a hand (\<open>multiHandLandmarks\<close> undefined or empty)
  calls no \<open>onGesture\<close>, whatever that callback is: no descriptor is produced
  and the whole state, with its mode, its selected item and its latched
  descriptor, is returned unchanged. So it is after any run of such frames.
\<close>

theorem no_hand_retains_state:
  assumes "\<forall>r\<in>set rs. r = None \<or> r = Some []"
  shows "onResultsAll cb rs st = Some st"
  using assms by (induction rs) (auto simp: onResults_def)

theorem no_hand_retains_state_witness:
  "onResultsAll gestureStep (replicate 10 None) initialApp = Some initialApp
   \<and> onResultsAll gestureStep [None, Some [], None] zoomedApp = Some zoomedApp
   \<and> appState initialApp = CLOSED"
  using no_hand_retains_state [of "replicate 10 None" gestureStep initialApp]
    no_hand_retains_state [of "[None, Some [], None]" gestureStep zoomedApp]
  by (simp add: initialApp_def)

text \<open>
  C10. With an empty photo list, a descriptor with \<open>isGrabbing\<close> set,
  received in the mode Scattered, is latched and changes nothing else: the mode
  stays Scattered and the selected item stays what it was, null. And no run of
  events from the initial state is in the mode Zoomed without a photo.
\<close>

theorem grab_without_photos_no_change:
  assumes "photos st = []" and "isGrabbing g" and "appState st = SCATTERED"
  shows "gestureStep g st = st\<lparr>gesture := Some g\<rparr>
         \<and> appState (gestureStep g st) = SCATTERED
         \<and> selectedPhotoId (gestureStep g st) = selectedPhotoId st
         \<and> (appState (appRun es initialApp) = ZOOMED \<longrightarrow> photos (appRun es initialApp) \<noteq> [])"
proof -
  have "gestureStep g st = st\<lparr>gesture := Some g\<rparr>"
    using assms by (simp add: step_defs)
  moreover have "appState (appRun es initialApp) = ZOOMED \<longrightarrow> photos (appRun es initialApp) \<noteq> []"
    using consistent_appRun [OF consistent_initialApp, of es]
    by (simp add: consistent_def split: if_splits)
  ultimately show ?thesis
    using assms(3) by simp
qed

theorem grab_without_photos_no_change_witness:
  "photos (scatteredApp []) = []
   \<and> isGrabbing (descriptor True True True)
   \<and> appState (scatteredApp []) = SCATTERED
   \<and> appState (gestureStep (descriptor True True True) (scatteredApp [])) = SCATTERED
   \<and> selectedPhotoId (gestureStep (descriptor True True True) (scatteredApp [])) = None
   \<and> appState (appRun [Gesture CLOSED (descriptor False True True), Upload [photoA]] initialApp) = ZOOMED
   \<and> photos (appRun [Gesture CLOSED (descriptor False True True), Upload [photoA]] initialApp) \<noteq> []"
  using grab_without_photos_no_change
    [of "scatteredApp []" "descriptor True True True"
        "[Gesture CLOSED (descriptor False True True), Upload [photoA]]"]
  by (simp add: descriptor_def scatteredApp_def appRun_def step_defs initialApp_def
      handleFileUpload_def)

section \<open>Properties of the animation blender\<close>

lemma lerp_easeVector: "lerp p target a = easeVector p target a"
  by (simp add: lerp_def easeVector_def easeToward_def)

lemma easeToward_remaining: "target - easeToward p target a = (target - p) * (1 - a)"
  by (simp add: easeToward_def algebra_simps)

lemma easeToward_no_farther:
  assumes "0 \<le> a" and "a \<le> 2"
  shows "\<bar>target - easeToward p target a\<bar> \<le> \<bar>target - p\<bar>"
proof -
  have "\<bar>target - easeToward p target a\<bar> = \<bar>target - p\<bar> * \<bar>1 - a\<bar>"
    by (simp add: easeToward_remaining abs_mult)
  also have "\<dots> \<le> \<bar>target - p\<bar> * 1"
    using assms by (intro mult_left_mono) auto
  finally show ?thesis by simp
qed

lemma easeToward_farther:
  assumes "2 < a" and "target \<noteq> p"
  shows "\<bar>target - p\<bar> < \<bar>target - easeToward p target a\<bar>"
proof -
  have "\<bar>target - easeToward p target a\<bar> = \<bar>target - p\<bar> * \<bar>1 - a\<bar>"
    by (simp add: easeToward_remaining abs_mult)
  moreover have "\<bar>target - p\<bar> * 1 < \<bar>target - p\<bar> * \<bar>1 - a\<bar>"
    using assms by (intro mult_strict_left_mono) auto
  ultimately show ?thesis by simp
qed

lemma easeVector_no_farther:
  "0 \<le> a \<Longrightarrow> a \<le> 2 \<Longrightarrow> noAxisFarther target p (easeVector p target a)"
  by (simp add: noAxisFarther_def easeVector_def easeToward_no_farther)

text \<open>
  C5, as the code has it. For every frame delta \<open>\<ge> 0\<close>, a photo that is not
  the zoomed one moves by \<open>position += (target - position) * (3 * delta)\<close> and a
  particle outside the mode Scattered by the same formula with the rate 2.5; the
  factor is the plain product, not clamped. It is the clamped blend as long as
  the product is at most 1, and on no axis does the distance to the target grow
  as long as the product is at most 2.
\<close>

theorem position_blend_unclamped:
  assumes "0 \<le> delta" and "\<not> isZoomed p" and "mode \<noteq> SCATTERED"
  shows "mesh_position (PhotoItem_useFrame facing p treeP scatterP camera delta m)
           = easeVector (mesh_position m) (if isScattered p then scatterP else treeP) (3 * delta)
         \<and> particleStep mode elapsedTime delta i target q = easeVector q target (2.5 * delta)
         \<and> (3 * delta \<le> 1 \<longrightarrow>
              mesh_position (PhotoItem_useFrame facing p treeP scatterP camera delta m)
                = easeVector (mesh_position m) (if isScattered p then scatterP else treeP)
                    (min 1 (3 * delta)))
         \<and> (3 * delta \<le> 2 \<longrightarrow>
              noAxisFarther (if isScattered p then scatterP else treeP) (mesh_position m)
                (mesh_position (PhotoItem_useFrame facing p treeP scatterP camera delta m)))
         \<and> (2.5 * delta \<le> 2 \<longrightarrow>
              noAxisFarther target q (particleStep mode elapsedTime delta i target q))"
proof -
  have photo:
    "mesh_position (PhotoItem_useFrame facing p treeP scatterP camera delta m)
       = easeVector (mesh_position m) (if isScattered p then scatterP else treeP) (3 * delta)"
    using assms(2) by (simp add: PhotoItem_useFrame_def Let_def lerp_easeVector mult.commute)
  have particle: "particleStep mode elapsedTime delta i target q = easeVector q target (2.5 * delta)"
    using assms(3) by (simp add: particleStep_def Let_def lerp_easeVector mult.commute)
  have clamped: "3 * delta \<le> 1 \<Longrightarrow> min 1 (3 * delta) = 3 * delta"
    by simp
  show ?thesis
    using assms(1) by (simp add: photo particle clamped easeVector_no_farther)
qed

theorem position_blend_unclamped_witness:
  "(0::real) \<le> 1 / 10
   \<and> \<not> isZoomed treeProps
   \<and> CLOSED \<noteq> SCATTERED
   \<and> mesh_position
        (PhotoItem_useFrame towardCamera treeProps (Vector3 1 0 0) (Vector3 0 0 0) cameraHome
           (1 / 10) newMesh)
       = Vector3 (3 / 10) 0 0
   \<and> particleStep CLOSED 7 (1 / 10) 0 (Vector3 4 (-5) 0) (Vector3 0 0 0) = Vector3 1 (- 5 / 4) 0
   \<and> noAxisFarther (Vector3 1 0 0) (mesh_position newMesh)
        (mesh_position
           (PhotoItem_useFrame towardCamera treeProps (Vector3 1 0 0) (Vector3 0 0 0) cameraHome
              (1 / 10) newMesh))"
  using position_blend_unclamped
    [of "1 / 10" treeProps CLOSED towardCamera "Vector3 1 0 0" "Vector3 0 0 0" cameraHome
        newMesh 7 0 "Vector3 4 (-5) 0" "Vector3 0 0 0"]
  by (simp add: treeProps_def newMesh_def easeVector_def easeToward_def noAxisFarther_def)

text \<open>
  C5 as it is stated fails for a large delta. After a stall of one second a
  photo at the origin with its target at \<open>x = 1\<close> is moved to \<open>x = 3\<close>, where
  the clamped blend would put it on the target, and its distance to the target
  has doubled.
\<close>

theorem large_delta_overshoots:
  "mesh_position
     (PhotoItem_useFrame towardCamera treeProps (Vector3 1 0 0) (Vector3 0 0 0) cameraHome 1
        newMesh)
     = Vector3 3 0 0
   \<and> easeVector (mesh_position newMesh) (Vector3 1 0 0) (min 1 (3 * 1)) = Vector3 1 0 0
   \<and> \<not> noAxisFarther (Vector3 1 0 0) (mesh_position newMesh)
        (mesh_position
           (PhotoItem_useFrame towardCamera treeProps (Vector3 1 0 0) (Vector3 0 0 0) cameraHome 1
              newMesh))"
  by (simp add: PhotoItem_useFrame_def treeProps_def newMesh_def lerp_def easeVector_def
      easeToward_def noAxisFarther_def Let_def)

section \<open>Properties of the layout generators\<close>

text \<open>
  No choice of height, base radius and angular step makes the layout of the
  photos a conical spiral of the reference shape.
\<close>

lemma treePos_not_conicalSpiral:
  "\<not> (\<exists>H R k. \<forall>i N. i < N \<longrightarrow> treePos i N = conicalSpiral H R k i N)"
proof
  assume "\<exists>H R k. \<forall>i N. i < N \<longrightarrow> treePos i N = conicalSpiral H R k i N"
  then obtain H R k where spiral: "\<And>i N. i < N \<Longrightarrow> treePos i N = conicalSpiral H R k i N"
    by blast
  have first: "treePos 0 1 = conicalSpiral H R k 0 1"
    using spiral by simp
  have second: "treePos 1 2 = conicalSpiral H R k 1 2"
    using spiral by simp
  from first have H: "H = 8"
    by (simp add: treePos_def conicalSpiral_def Let_def)
  from first H have R: "R = 36 / 10"
    by (simp add: treePos_def conicalSpiral_def Let_def)
  from second H R have "cos k * (18 / 10) = 2"
    by (simp add: treePos_def conicalSpiral_def Let_def)
  moreover have "cos k \<le> 1"
    by simp
  ultimately show False
    by linarith
qed

text \<open>
  C6, as the code has it. The decorative particle \<open>i\<close> of the 350 has the
  conical spiral of the reference definition as its assembled target, with the
  configured height 10, base radius 4 and angular step 0.4. A photo \<open>i\<close> of
  \<open>N\<close> has the height \<open>h = (i / N) * 8 - 4\<close>, the radius that the cone of the
  particles has at that height, \<open>r = ((10 / 2 - h) / 10) * 4\<close>, and the azimuth
  \<open>i * (4 * pi / N)\<close>, two turns whatever \<open>N\<close> is.
\<close>

theorem assembled_targets:
  assumes "i < count" and "j < N"
  shows "treePositions ! i = conicalSpiral height baseRadius 0.4 i count
         \<and> treePos j N =
             (let h = (real j / real N) * 8 - 4;
                  r = ((height / 2 - h) / height) * baseRadius;
                  angle = real j * (4 * pi / real N)
              in Vector3 (cos angle * r) h (sin angle * r))"
proof -
  have particle: "treePositions ! i = conicalSpiral height baseRadius 0.4 i count"
    using assms(1)
    by (simp add: treePositions_def treePosition_def conicalSpiral_def Let_def height_def
        baseRadius_def count_def)
  have angle: "(real j / real N) * pi * 4 = real j * (4 * pi / real N)"
    by simp
  have photo:
    "treePos j N =
       (let h = (real j / real N) * 8 - 4;
            r = ((height / 2 - h) / height) * baseRadius;
            angle = real j * (4 * pi / real N)
        in Vector3 (cos angle * r) h (sin angle * r))"
    unfolding treePos_def angle by (simp add: Let_def height_def baseRadius_def)
  show ?thesis
    using particle photo by simp
qed

theorem assembled_targets_witness:
  "0 < count
   \<and> treePositions ! 0 = Vector3 4 (- 5) 0
   \<and> treePos 1 2 = Vector3 2 0 0"
  using assembled_targets [of 0 1 2]
  by (simp add: count_def conicalSpiral_def height_def baseRadius_def Let_def)

text \<open>
  C6 as it is stated fails for the photos: the single photo of a gallery of one
  is placed at \<open>(3.6, -4, 0)\<close>, the reference spiral of the configured tree
  starts at \<open>(4, -5, 0)\<close>.
\<close>

theorem photo_target_off_spiral:
  "treePos 0 1 = Vector3 (36 / 10) (- 4) 0
   \<and> conicalSpiral height baseRadius 0.4 0 1 = Vector3 4 (- 5) 0
   \<and> treePos 0 1 \<noteq> conicalSpiral height baseRadius 0.4 0 1"
  by (simp add: treePos_def conicalSpiral_def Let_def height_def baseRadius_def)

section \<open>Properties of the memoised scattered targets\<close>

lemma useMemo_same: "useMemo f d (Some (d, v)) s = (Some (d, v), s)"
  by (simp add: useMemo_def)

lemma useMemo_first: "useMemo f d None s = (Some (d, fst (f s)), snd (f s))"
  by (simp add: useMemo_def split_beta)

lemma randomVector_value:
  "fst (randomVector w s) = Vector3 ((s 0 - 0.5) * w) ((s 1 - 0.5) * w) ((s 2 - 0.5) * w)"
  by (simp add: randomVector_def random_def split_beta Let_def numeral_2_eq_2)

lemma randomVector_rest: "snd (randomVector w s) = (\<lambda>n. s (n + 3))"
  by (simp add: randomVector_def random_def split_beta Let_def numeral_3_eq_3)

lemma randomVectors_value:
  "k < n \<Longrightarrow>
   fst (randomVectors w n s) ! k =
     Vector3 ((s (3 * k) - 0.5) * w) ((s (3 * k + 1) - 0.5) * w) ((s (3 * k + 2) - 0.5) * w)"
proof (induction n arbitrary: s k)
  case 0
  then show ?case by simp
next
  case (Suc n)
  show ?case
  proof (cases k)
    case 0
    then show ?thesis by (simp add: split_beta randomVector_value numeral_2_eq_2)
  next
    case (Suc j)
    with Suc.prems have "j < n" by simp
    have shift: "3 * j + 3 = 3 * Suc j" "3 * j + 1 + 3 = 3 * Suc j + 1"
      "3 * j + 2 + 3 = 3 * Suc j + 2"
      by simp_all
    from Suc.IH [OF \<open>j < n\<close>, of "snd (randomVector w s)"] Suc show ?thesis
      by (simp only: randomVectors.simps split_beta Let_def fst_conv snd_conv nth_Cons_Suc
          randomVector_rest shift)
  qed
qed

lemma randomVector_inCube:
  assumes "\<And>n. 0 \<le> s n \<and> s n < 1" and "0 < w"
  shows "inCube (w / 2) (fst (randomVector w s))"
proof -
  have "- (w / 2) \<le> (s n - 0.5) * w \<and> (s n - 0.5) * w < w / 2" for n
  proof -
    have lower: "0 \<le> s n * w"
      using assms(1) [of n] assms(2) by simp
    have upper: "s n * w < w"
      using assms(1) [of n] assms(2) by simp
    have "(s n - 0.5) * w = s n * w - w / 2"
      by (simp add: algebra_simps)
    with lower upper show ?thesis
      by linarith
  qed
  then show ?thesis
    by (simp add: inCube_def randomVector_value)
qed

lemma randomVectors_length: "length (fst (randomVectors w n s)) = n"
  by (induction n arbitrary: s) (simp_all add: split_beta)

lemma randomVectors_inCube:
  assumes "\<And>n. 0 \<le> s n \<and> s n < 1" and "0 < w" and "v \<in> set (fst (randomVectors w n s))"
  shows "inCube (w / 2) v"
  using assms
proof (induction n arbitrary: s)
  case 0
  then show ?case by simp
next
  case (Suc n)
  from Suc.prems(3) consider "v = fst (randomVector w s)"
    | "v \<in> set (fst (randomVectors w n (snd (randomVector w s))))"
    by (auto simp: split_beta)
  then show ?case
  proof cases
    case 1
    then show ?thesis using Suc.prems(1,2) by (simp add: randomVector_inCube)
  next
    case 2
    have "\<And>k. 0 \<le> snd (randomVector w s) k \<and> snd (randomVector w s) k < 1"
      using Suc.prems(1) by (simp add: randomVector_rest)
    then show ?thesis using Suc.IH Suc.prems(2) 2 by blast
  qed
qed

lemma PhotoItem_render_keeps:
  "scatterPos_memo it = Some ((), v)
   \<Longrightarrow> scatterPos_memo (fst (PhotoItem_render p it s)) = Some ((), v)"
  by (simp add: PhotoItem_render_def useMemo_same split_beta)

lemma PhotoItem_frame_keeps:
  "scatterPos_memo (PhotoItem_frame facing camera delta it) = scatterPos_memo it"
  by (simp add: PhotoItem_frame_def split: option.splits prod.splits)

lemma PhotoItem_event_keeps:
  "scatterPos_memo it = Some ((), v)
   \<Longrightarrow> scatterPos_memo (PhotoItem_event facing e it) = Some ((), v)"
  by (cases e) (simp_all add: PhotoItem_render_keeps PhotoItem_frame_keeps)

lemma PhotoItem_run_keeps:
  "scatterPos_memo it = Some ((), v)
   \<Longrightarrow> scatterPos_memo (PhotoItem_run facing es it) = Some ((), v)"
  unfolding PhotoItem_run_def
  by (induction es arbitrary: it) (simp_all add: PhotoItem_event_keeps)

lemma PhotoItem_mount_value:
  "scatterPos_memo (fst (PhotoItem_mount p s)) = Some ((), fst (randomVector 20 s))"
  by (simp add: PhotoItem_mount_def PhotoItem_render_def useMemo_first scatterPos_def split_beta)

lemma Experience_render_keeps:
  "scatterPositions_memo ex = Some (count, v)
   \<Longrightarrow> scatterPositions_memo (fst (Experience_render ex s)) = Some (count, v)"
  by (simp add: Experience_render_def useMemo_same split_beta)

lemma Experience_frame_keeps:
  "scatterPositions_memo (Experience_frame mode t delta ex) = scatterPositions_memo ex"
  by (simp add: Experience_frame_def split: option.splits prod.splits)

lemma Experience_event_keeps:
  "scatterPositions_memo ex = Some (count, v)
   \<Longrightarrow> scatterPositions_memo (Experience_event e ex) = Some (count, v)"
  by (cases e) (simp_all add: Experience_render_keeps Experience_frame_keeps)

lemma Experience_run_keeps:
  "scatterPositions_memo ex = Some (count, v)
   \<Longrightarrow> scatterPositions_memo (Experience_run es ex) = Some (count, v)"
  unfolding Experience_run_def
  by (induction es arbitrary: ex) (simp_all add: Experience_event_keeps)

lemma Experience_mount_value:
  "scatterPositions_memo (Experience_mount s) = Some (count, fst (randomVectors 30 count s))"
  by (simp add: Experience_mount_def Experience_render_def useMemo_first scatterPositions_def
      split_beta Let_def)

text \<open>
  C9. The scattered target of a photo is drawn when the item is mounted, from
  three successive random numbers, one per coordinate, each scaled to the
  symmetric interval of half-width 10; after any sequence of renders (new props,
  for instance on a change of mode, with the generator in any state) and frames
  the stored target is still that vector. The same holds for the 350 scattered
  targets of the particles, of half-width 15: the target of the particle \<open>k\<close>
  is made of the random numbers \<open>3k\<close>, \<open>3k + 1\<close> and \<open>3k + 2\<close> drawn at the
  mount. With random numbers in \<open>[0, 1)\<close> every target lies in its cube.
\<close>

theorem scattered_target_fixed:
  "scatterPos_memo (PhotoItem_run facing es (fst (PhotoItem_mount p s)))
     = Some ((), Vector3 ((s 0 - 0.5) * 20) ((s 1 - 0.5) * 20) ((s 2 - 0.5) * 20))
   \<and> scatterPositions_memo (Experience_run xs (Experience_mount s))
       = Some (count, fst (randomVectors 30 count s))
   \<and> length (fst (randomVectors 30 count s)) = count
   \<and> (\<forall>k<count.
        fst (randomVectors 30 count s) ! k
          = Vector3 ((s (3 * k) - 0.5) * 30) ((s (3 * k + 1) - 0.5) * 30)
              ((s (3 * k + 2) - 0.5) * 30))
   \<and> ((\<forall>n. 0 \<le> s n \<and> s n < 1) \<longrightarrow>
        inCube 10 (Vector3 ((s 0 - 0.5) * 20) ((s 1 - 0.5) * 20) ((s 2 - 0.5) * 20))
        \<and> (\<forall>k<count. inCube 15 (fst (randomVectors 30 count s) ! k)))"
proof -
  have photo:
    "scatterPos_memo (PhotoItem_run facing es (fst (PhotoItem_mount p s)))
       = Some ((), Vector3 ((s 0 - 0.5) * 20) ((s 1 - 0.5) * 20) ((s 2 - 0.5) * 20))"
    by (simp add: PhotoItem_run_keeps PhotoItem_mount_value randomVector_value)
  have particles:
    "scatterPositions_memo (Experience_run xs (Experience_mount s))
       = Some (count, fst (randomVectors 30 count s))"
    by (simp add: Experience_run_keeps Experience_mount_value)
  have drawn:
    "\<forall>k<count.
       fst (randomVectors 30 count s) ! k
         = Vector3 ((s (3 * k) - 0.5) * 30) ((s (3 * k + 1) - 0.5) * 30)
             ((s (3 * k + 2) - 0.5) * 30)"
    using randomVectors_value [of _ count 30 s] by blast
  have cube: "inCube 10 (Vector3 ((s 0 - 0.5) * 20) ((s 1 - 0.5) * 20) ((s 2 - 0.5) * 20))"
    if "\<forall>n. 0 \<le> s n \<and> s n < 1"
    using randomVector_inCube [of s 20] that by (simp add: randomVector_value)
  have cubes: "inCube 15 (fst (randomVectors 30 count s) ! k)"
    if "\<forall>n. 0 \<le> s n \<and> s n < 1" and "k < count" for k
    using randomVectors_inCube [of s 30 "fst (randomVectors 30 count s) ! k" count] that
    by (simp add: randomVectors_length)
  show ?thesis
    using photo particles drawn cube cubes randomVectors_length [of 30 count s] by blast
qed

theorem scattered_target_fixed_witness:
  "scatterPos_memo
     (PhotoItem_run towardCamera
        [Frame cameraHome (1 / 60), Rerender (treeProps\<lparr>isScattered := True\<rparr>) (\<lambda>n. 9 / 10),
         Frame cameraHome (1 / 60), Rerender treeProps (\<lambda>n. 1 / 10)]
        (fst (PhotoItem_mount treeProps halves)))
     = Some ((), Vector3 0 0 0)
   \<and> inCube 10 (Vector3 0 0 0)
   \<and> scatterPositions_memo
       (Experience_run [EFrame CLOSED 0 (1 / 60), ERerender (\<lambda>n. 9 / 10), EFrame SCATTERED 1 (1 / 60)]
          (Experience_mount halves))
       = Some (count, fst (randomVectors 30 count halves))
   \<and> inCube 15 (fst (randomVectors 30 count halves) ! 0)
   \<and> scatterPos_memo
       (PhotoItem_run towardCamera
          [Rerender (treeProps\<lparr>isScattered := True\<rparr>) halves, Frame cameraHome (1 / 60)]
          (fst (PhotoItem_mount treeProps quarters)))
       = Some ((), Vector3 (- 10) (- 5) 0)
   \<and> fst (randomVectors 30 count quarters) ! 1 = Vector3 (15 / 2) (- 15) (- 15 / 2)
   \<and> fst (randomVectors 30 count quarters) ! 349 = Vector3 (15 / 2) (- 15) (- 15 / 2)"
  using scattered_target_fixed
    [of towardCamera
        "[Frame cameraHome (1 / 60), Rerender (treeProps\<lparr>isScattered := True\<rparr>) (\<lambda>n. 9 / 10),
          Frame cameraHome (1 / 60), Rerender treeProps (\<lambda>n. 1 / 10)]"
        treeProps halves
        "[EFrame CLOSED 0 (1 / 60), ERerender (\<lambda>n. 9 / 10), EFrame SCATTERED 1 (1 / 60)]"]
    scattered_target_fixed
    [of towardCamera
        "[Rerender (treeProps\<lparr>isScattered := True\<rparr>) halves, Frame cameraHome (1 / 60)]"
        treeProps quarters "[]"]
  by (simp add: halves_def quarters_def count_def inCube_def)


end
